theory Spec2Isabelle
  imports Complex_Main
begin

section \<open>Values and engine primitives\<close>

text \<open>
  The pipeline of \<^verbatim>\<open>docs/app.js\<close> works on decoded spreadsheet cells. A cell is empty
  (\<^verbatim>\<open>null\<close> or \<^verbatim>\<open>undefined\<close>, which the code always tests together), a text, a number
  or a native date (its time value in milliseconds since 1970-01-01T00:00Z).

  Numbers are modelled as exact rationals: \<^verbatim>\<open>NaN\<close> appears only as the value \<open>None\<close>
  of a conversion, and the rounding, the infinities and the range limits of IEEE doubles and
  of \<^verbatim>\<open>Date\<close> time values are outside the model. JavaScript strings are lists of
  8-bit characters (the Latin-1 code units).

  Conversions that the language runtime defines and the repository does not
  (\<^verbatim>\<open>String\<close> of a number or of a date, \<^verbatim>\<open>Number\<close> of a string, \<^verbatim>\<open>Date.parse\<close>, the
  offset of local time from UTC) are the fields of an \<open>engine\<close> that every function using
  them takes as its first argument.
\<close>

datatype cell = Null | Txt string | Num rat | Dat int

record engine =
  numToString :: "rat \<Rightarrow> string"
  dateToString :: "int \<Rightarrow> string"
  stringToNumber :: "string \<Rightarrow> rat option"
  dateParse :: "string \<Rightarrow> int option"
  tzOffset :: int

text \<open>\<^verbatim>\<open>String(v)\<close>.\<close>

fun js_String :: "engine \<Rightarrow> cell \<Rightarrow> string" where
  "js_String E Null = ''null''"
| "js_String E (Txt s) = s"
| "js_String E (Num q) = numToString E q"
| "js_String E (Dat t) = dateToString E t"

text \<open>\<^verbatim>\<open>Number(v) || 0\<close>: \<^verbatim>\<open>NaN\<close> and \<^verbatim>\<open>0\<close> are both falsy.\<close>

fun js_Number :: "engine \<Rightarrow> cell \<Rightarrow> rat option" where
  "js_Number E Null = Some 0"
| "js_Number E (Txt s) = stringToNumber E s"
| "js_Number E (Num q) = Some q"
| "js_Number E (Dat t) = Some (of_int t)"


text \<open>
  \<^verbatim>\<open>String(n)\<close> for an integral number \<open>n\<close> (below \<open>10\<^sup>2\<^sup>1\<close> in magnitude, where the
  engine switches to exponent notation): the decimal digits, with a minus sign if negative.
\<close>

definition digitChar :: "nat \<Rightarrow> char" where
  "digitChar n = ''0123456789'' ! n"

fun showNat :: "nat \<Rightarrow> string" where
  "showNat n = (if n < 10 then [digitChar n] else showNat (n div 10) @ [digitChar (n mod 10)])"

declare showNat.simps [simp del]

definition showInt :: "int \<Rightarrow> string" where
  "showInt i = (if i < 0 then ''-'' @ showNat (nat (- i)) else showNat (nat i))"

text \<open>
  An engine for evaluating the definitions at concrete inputs: local time is UTC, integral
  numbers print in decimal, and only the empty string converts to a number.
\<close>

definition sampleEngine :: engine where
  "sampleEngine =
     \<lparr> numToString = (\<lambda>q. showInt \<lfloor>q\<rfloor>),
       dateToString = (\<lambda>t. showInt t),
       stringToNumber = (\<lambda>s. if s = '''' then Some 0 else None),
       dateParse = (\<lambda>s. None),
       tzOffset = 0 \<rparr>"

text \<open>
  \<^verbatim>\<open>String.prototype.trim\<close> removes white space and line terminators at both ends; among
  the 8-bit code units these are TAB, LF, VT, FF, CR, SPACE and NO-BREAK SPACE.
\<close>

definition isWhite :: "char \<Rightarrow> bool" where
  "isWhite c = (c \<in> set [CHR 0x09, CHR 0x0A, CHR 0x0B, CHR 0x0C, CHR 0x0D, CHR 0x20, CHR 0xA0])"

definition trim :: "string \<Rightarrow> string" where
  "trim s = rev (dropWhile isWhite (rev (dropWhile isWhite s)))"

text \<open>The regular expression class \<^verbatim>\<open>\d\<close>; \<^verbatim>\<open>s.replace(/\D+/g, '')\<close> keeps the digits.\<close>

definition isDigit :: "char \<Rightarrow> bool" where
  "isDigit c = (c \<in> set ''0123456789'')"

definition stripNonDigits :: "string \<Rightarrow> string" where
  "stripNonDigits s = filter isDigit s"

section \<open>Leave code normalisation\<close>


definition normalizeLeaveCodeRawOracle :: "engine \<Rightarrow> cell \<Rightarrow> string" where
  "normalizeLeaveCodeRawOracle E codeRaw =
     (if codeRaw = Null \<or> trim (js_String E codeRaw) = '''' \<or> trim (js_String E codeRaw) = ''-''
      then ''0''
      else let s = trim (js_String E codeRaw); digits = stripNonDigits s
           in if digits = '''' then s else digits)"

text \<open>The remap of the normalised Oracle code to the DRMIS code space (\<^verbatim>\<open>oracleKey\<close>).\<close>

definition oracleKey :: "string \<Rightarrow> string" where
  "oracleKey nrm =
     (if nrm = ''0'' then ''0''
      else if length nrm = 3 then ''1'' @ nrm
      else if length nrm = 4 then nrm
      else nrm)"


section \<open>Calendar dates\<close>

text \<open>
  A \<open>date\<close> is a calendar day of local time, numbered from 1970-01-01 (day 0): the value
  of a \<^verbatim>\<open>Date\<close> object at local midnight. The day number of a civil date follows the
  ECMAScript definitions \<^verbatim>\<open>DayFromYear\<close>, \<^verbatim>\<open>InLeapYear\<close> and \<^verbatim>\<open>MakeDay\<close>; \<open>makeDate\<close>
  is \<^verbatim>\<open>new Date(year, monthIndex, day)\<close>, which reads a year from 0 to 99 as 1900 + year and
  carries months and days that are out of range. Local time is at a fixed offset of
  \<open>tzOffset\<close> minutes from UTC, so that adding 24 hours to a date gives the next day.
\<close>

type_synonym date = int

definition dayFromYear :: "int \<Rightarrow> int" where
  "dayFromYear y = 365 * (y - 1970) + (y - 1969) div 4 - (y - 1901) div 100 + (y - 1601) div 400"

definition inLeapYear :: "int \<Rightarrow> bool" where
  "inLeapYear y = ((y mod 4 = 0 \<and> y mod 100 \<noteq> 0) \<or> y mod 400 = 0)"

definition monthStart :: "bool \<Rightarrow> nat \<Rightarrow> int" where
  "monthStart leap m =
     [0, 31, 59, 90, 120, 151, 181, 212, 243, 273, 304, 334] ! m + (if leap \<and> 2 \<le> m then 1 else 0)"

definition makeDay :: "int \<Rightarrow> int \<Rightarrow> int \<Rightarrow> int" where
  "makeDay year month dt =
     (let ym = year + month div 12; mn = nat (month mod 12)
      in dayFromYear ym + monthStart (inLeapYear ym) mn + dt - 1)"

definition makeDate :: "int \<Rightarrow> int \<Rightarrow> int \<Rightarrow> date" where
  "makeDate year monthIndex day =
     makeDay (if 0 \<le> year \<and> year \<le> 99 then 1900 + year else year) monthIndex day"

text \<open>\<^verbatim>\<open>getDay()\<close>: 0 is Sunday, 6 is Saturday; 1970-01-01 was a Thursday.\<close>

definition getDay :: "date \<Rightarrow> int" where
  "getDay d = (d + 4) mod 7"

definition msPerDay :: int where
  "msPerDay = 24 * 60 * 60 * 1000"

text \<open>The local calendar day of an instant (\<^verbatim>\<open>new Date(t.getFullYear(), t.getMonth(), t.getDate())\<close>).\<close>

definition localDay :: "engine \<Rightarrow> int \<Rightarrow> date" where
  "localDay E t = (t + tzOffset E * 60000) div msPerDay"

text \<open>\<^verbatim>\<open>new Date(x)\<close> cuts the fraction of a millisecond off a number, towards zero.\<close>

definition timeClip :: "rat \<Rightarrow> int" where
  "timeClip x = (if x < 0 then \<lceil>x\<rceil> else \<lfloor>x\<rfloor>)"

subsection \<open>normalizeDate\<close>

text \<open>\<^verbatim>\<open>s.split(sep)\<close>: the pieces of \<open>s\<close> between the occurrences of a character.\<close>

fun splitOn :: "char \<Rightarrow> string \<Rightarrow> string list" where
  "splitOn sep [] = [[]]"
| "splitOn sep (c # cs) =
     (if c = sep then [] # splitOn sep cs
      else (case splitOn sep cs of p # ps \<Rightarrow> (c # p) # ps | [] \<Rightarrow> [[c]]))"

text \<open>A group \<^verbatim>\<open>(\d{lo,hi})\<close> of a regular expression.\<close>

definition digitGroup :: "nat \<Rightarrow> nat \<Rightarrow> string \<Rightarrow> bool" where
  "digitGroup lo hi p = (list_all isDigit p \<and> lo \<le> length p \<and> length p \<le> hi)"

text \<open>
  \<^verbatim>\<open>s.match(/^(\d{a,b})SEP(\d{c,d})SEP(\d{e,f})$/)\<close>: the three groups, when the whole of \<open>s\<close>
  is three digit groups of these lengths joined by the separator.
\<close>

definition match3 :: "char \<Rightarrow> nat \<times> nat \<Rightarrow> nat \<times> nat \<Rightarrow> nat \<times> nat \<Rightarrow> string \<Rightarrow> (string \<times> string \<times> string) option" where
  "match3 sep g1 g2 g3 s =
     (case splitOn sep s of
        [a, b, c] \<Rightarrow>
          if digitGroup (fst g1) (snd g1) a \<and> digitGroup (fst g2) (snd g2) b \<and> digitGroup (fst g3) (snd g3) c
          then Some (a, b, c) else None
      | _ \<Rightarrow> None)"

text \<open>\<^verbatim>\<open>parseInt\<close> of a string of decimal digits.\<close>

definition digitVal :: "char \<Rightarrow> int" where
  "digitVal c = int (of_char c) - 48"

definition digitsToInt :: "string \<Rightarrow> int" where
  "digitsToInt ds = foldl (\<lambda>acc c. 10 * acc + digitVal c) 0 ds"

definition excelEpoch :: int where
  "excelEpoch = makeDay 1899 11 30 * msPerDay"

definition normalizeDate :: "engine \<Rightarrow> cell \<Rightarrow> date option" where
  "normalizeDate E v =
     (case v of
        Null \<Rightarrow> None
      | Dat t \<Rightarrow> Some (localDay E t)
      | Num x \<Rightarrow>
          (let ms = x * of_int msPerDay;
               d = timeClip (of_int excelEpoch + ms)
           in Some (localDay E d))
      | Txt str \<Rightarrow>
          if str = '''' then None
          else let s = trim str in
            (case match3 (CHR ''.'') (1, 2) (1, 2) (4, 4) s of
               Some (m1, m2, m3) \<Rightarrow> Some (makeDate (digitsToInt m3) (digitsToInt m2 - 1) (digitsToInt m1))
             | None \<Rightarrow>
            (case match3 (CHR ''-'') (1, 2) (1, 2) (4, 4) s of
               Some (m1, m2, m3) \<Rightarrow> Some (makeDate (digitsToInt m3) (digitsToInt m2 - 1) (digitsToInt m1))
             | None \<Rightarrow>
            (case match3 (CHR ''/'') (1, 2) (1, 2) (4, 4) s of
               Some (m1, m2, m3) \<Rightarrow> Some (makeDate (digitsToInt m3) (digitsToInt m1 - 1) (digitsToInt m2))
             | None \<Rightarrow>
            (case match3 (CHR ''-'') (4, 4) (1, 2) (1, 2) s of
               Some (m1, m2, m3) \<Rightarrow> Some (makeDate (digitsToInt m1) (digitsToInt m2 - 1) (digitsToInt m3))
             | None \<Rightarrow>
            (case dateParse E s of
               Some parsed \<Rightarrow> Some (localDay E parsed)
             | None \<Rightarrow> None))))))"

subsection \<open>isBusinessDay\<close>

definition holidays2025 :: "date list" where
  "holidays2025 =
     [makeDate 2025 0 1, makeDate 2025 3 18, makeDate 2025 4 19, makeDate 2025 6 1,
      makeDate 2025 7 4, makeDate 2025 8 1, makeDate 2025 8 30, makeDate 2025 9 13,
      makeDate 2025 10 11, makeDate 2025 11 25, makeDate 2025 11 26]"

definition isBusinessDay :: "date option \<Rightarrow> bool" where
  "isBusinessDay dateObj =
     (case dateObj of
        None \<Rightarrow> False
      | Some d \<Rightarrow>
          if d \<in> set holidays2025 then False
          else let day = getDay d in 1 \<le> day \<and> day \<le> 5)"

section \<open>Multi-day expansion of Oracle records\<close>


record oracle_rec =
  Date :: date
  Oracle_Hours :: rat
  Oracle_Leave_Code :: string

text \<open>
  The inner loop \<^verbatim>\<open>while (!isBusinessDay(currentDate)) currentDate = currentDate + 24h\<close>
  and the outer loop \<^verbatim>\<open>while (remaining > 0)\<close>. Neither has a bound in the source, so both
  are partial functions: \<open>None\<close> stands for a loop that does not end.
\<close>

partial_function (option) nextBusinessDay :: "date \<Rightarrow> date option" where
  "nextBusinessDay currentDate =
     (if \<not> isBusinessDay (Some currentDate) then nextBusinessDay (currentDate + 1)
      else Some currentDate)"

partial_function (option) expandLoop :: "string \<Rightarrow> rat \<Rightarrow> date \<Rightarrow> oracle_rec list \<Rightarrow> oracle_rec list option" where
  "expandLoop leaveCode remaining currentDate expanded =
     (if remaining > 0 then
        (case nextBusinessDay currentDate of
           None \<Rightarrow> None
         | Some cur \<Rightarrow>
             let dayHours = min 8 remaining
             in expandLoop leaveCode (remaining - dayHours) (cur + 1)
                  (expanded @ [\<lparr> Date = cur, Oracle_Hours = dayHours, Oracle_Leave_Code = leaveCode \<rparr>]))
      else Some expanded)"

declare nextBusinessDay.simps [code] expandLoop.simps [code]





section \<open>Reconciliation\<close>

text \<open>
  Truthiness of a cell (\<^verbatim>\<open>v ? .. : ..\<close>, \<^verbatim>\<open>v || w\<close>) and of a string.
\<close>

fun truthy :: "cell \<Rightarrow> bool" where
  "truthy Null = False"
| "truthy (Txt s) = (s \<noteq> '''')"
| "truthy (Num q) = (q \<noteq> 0)"
| "truthy (Dat t) = True"

text \<open>
  \<^verbatim>\<open>parseInt(s)\<close> without a radix: white space in front is skipped, a sign is read, the
  prefix \<^verbatim>\<open>0x\<close> selects radix 16, and the longest run of digits of the radix is the value;
  the rest of the string is ignored. \<open>None\<close> is \<^verbatim>\<open>NaN\<close>.
\<close>

definition radixDigit :: "nat \<Rightarrow> char \<Rightarrow> nat option" where
  "radixDigit radix c =
     (let n = of_char c;
          v = (if 48 \<le> n \<and> n \<le> 57 then Some (n - 48)
               else if 97 \<le> n \<and> n \<le> 122 then Some (n - 87)
               else if 65 \<le> n \<and> n \<le> 90 then Some (n - 55)
               else None)
      in case v of None \<Rightarrow> None | Some d \<Rightarrow> if d < radix then Some d else None)"

definition radixValue :: "nat \<Rightarrow> string \<Rightarrow> int" where
  "radixValue radix z = foldl (\<lambda>acc c. int radix * acc + (case radixDigit radix c of None \<Rightarrow> 0 | Some d \<Rightarrow> int d)) 0 z"

definition parseInt :: "string \<Rightarrow> int option" where
  "parseInt str =
     (let s = dropWhile isWhite str;
          neg = (take 1 s = ''-'');
          s1 = (if take 1 s = ''-'' \<or> take 1 s = ''+'' then drop 1 s else s);
          hex = (take 2 s1 = ''0x'' \<or> take 2 s1 = ''0X'');
          radix = (if hex then 16 else 10);
          s2 = (if hex then drop 2 s1 else s1);
          z = takeWhile (\<lambda>c. radixDigit radix c \<noteq> None) s2
      in if z = '''' then None
         else Some ((if neg then - 1 else 1) * radixValue radix z))"

text \<open>The records that \<^verbatim>\<open>extractDrmisData\<close> returns.\<close>

record drmis_rec =
  d_Pers_No :: cell
  d_Date :: date
  Drmis_Hours :: rat
  Drmis_Leave_Code :: string

text \<open>
  A row of the map of \<^verbatim>\<open>reconcileData\<close> and of the merged array; a mismatch carries the
  flag \<^verbatim>\<open>'Add to CATs Edits'\<close> as well.
\<close>

record merged_row =
  m_Date :: date
  m_Pers_No :: cell
  m_Drmis_Hours :: rat
  m_Drmis_Leave_Code :: string
  m_Oracle_Hours :: rat
  m_Oracle_Leave_Code :: string

record mismatch = merged_row +
  Add_to_CATs_Edits :: bool

text \<open>
  The keys of the map are the strings \<^verbatim>\<open>dateStr + '|' + pers\<close>, with \<^verbatim>\<open>dateStr\<close> the ISO day
  of the date. A key is modelled as the pair of the date and of the text after the bar. The
  ISO day holds no bar, so \<^verbatim>\<open>k.startsWith(dateStr + '|')\<close> holds exactly when the first
  component of \<open>k\<close> is that date. A \<^verbatim>\<open>Map\<close> is the list of its entries in insertion order.
\<close>

type_synonym key = "date \<times> string"

definition keyFor :: "engine \<Rightarrow> date \<Rightarrow> cell \<Rightarrow> key" where
  "keyFor E dt pers = (dt, if truthy pers then js_String E pers else '''')"

fun mapHas :: "key \<Rightarrow> (key \<times> merged_row) list \<Rightarrow> bool" where
  "mapHas k [] = False"
| "mapHas k ((k', v) # m) = (k' = k \<or> mapHas k m)"

fun mapSet :: "key \<Rightarrow> merged_row \<Rightarrow> (key \<times> merged_row) list \<Rightarrow> (key \<times> merged_row) list" where
  "mapSet k v [] = [(k, v)]"
| "mapSet k v ((k', v') # m) = (if k' = k then (k', v) # m else (k', v') # mapSet k v m)"

definition defaultPersOf :: "engine \<Rightarrow> drmis_rec list \<Rightarrow> string" where
  "defaultPersOf E drmisData =
     (case find (\<lambda>r. d_Pers_No r \<noteq> Null \<and> trim (js_String E (d_Pers_No r)) \<noteq> '''') drmisData of
        Some firstWithPers \<Rightarrow> js_String E (d_Pers_No firstWithPers)
      | None \<Rightarrow> '''')"

text \<open>The body of \<^verbatim>\<open>drmisData.forEach\<close>: the first record of a key is kept.\<close>

definition seedDrmis :: "engine \<Rightarrow> (key \<times> merged_row) list \<Rightarrow> drmis_rec \<Rightarrow> (key \<times> merged_row) list" where
  "seedDrmis E m r =
     (let k = keyFor E (d_Date r) (d_Pers_No r)
      in if \<not> mapHas k m
         then mapSet k \<lparr> m_Date = d_Date r, m_Pers_No = d_Pers_No r, m_Drmis_Hours = Drmis_Hours r,
                         m_Drmis_Leave_Code = Drmis_Leave_Code r, m_Oracle_Hours = 0,
                         m_Oracle_Leave_Code = '''' \<rparr> m
         else m)"

text \<open>The body of \<^verbatim>\<open>oracleData.forEach\<close>, the placement of an Oracle record.\<close>

definition placeOracle :: "string \<Rightarrow> (key \<times> merged_row) list \<Rightarrow> oracle_rec \<Rightarrow> (key \<times> merged_row) list" where
  "placeOracle defaultPers m r =
     (case find (\<lambda>(k, v). fst k = Date r) m of
        Some (foundKey, entry) \<Rightarrow>
          mapSet foundKey (entry\<lparr> m_Oracle_Hours := Oracle_Hours r,
                                  m_Oracle_Leave_Code := Oracle_Leave_Code r \<rparr>) m
      | None \<Rightarrow>
          mapSet (Date r, defaultPers)
            \<lparr> m_Date = Date r, m_Pers_No = Txt defaultPers, m_Drmis_Hours = 0,
              m_Drmis_Leave_Code = ''0'', m_Oracle_Hours = Oracle_Hours r,
              m_Oracle_Leave_Code = Oracle_Leave_Code r \<rparr> m)"

definition placeAll :: "string \<Rightarrow> (key \<times> merged_row) list \<Rightarrow> oracle_rec list \<Rightarrow> (key \<times> merged_row) list" where
  "placeAll defaultPers m oracleData = foldl (placeOracle defaultPers) m oracleData"

text \<open>The key and the DRMIS side of an entry of the map.\<close>

definition drmisSide :: "key \<times> merged_row \<Rightarrow> key \<times> date \<times> cell \<times> rat \<times> string" where
  "drmisSide e = (fst e, m_Date (snd e), m_Pers_No (snd e), m_Drmis_Hours (snd e), m_Drmis_Leave_Code (snd e))"

text \<open>The merged array: the values of the map, then the DRMIS leave code in its number form.\<close>

definition mergedOf :: "engine \<Rightarrow> string \<Rightarrow> merged_row \<Rightarrow> merged_row" where
  "mergedOf E defaultPers m =
     \<lparr> m_Date = m_Date m,
       m_Pers_No =
         (if m_Pers_No m = Txt '''' \<or> m_Pers_No m = Null then Txt defaultPers
          else case js_Number E (m_Pers_No m) of
                 Some q \<Rightarrow> if q \<noteq> 0 then Num q else m_Pers_No m
               | None \<Rightarrow> m_Pers_No m),
       m_Drmis_Hours = m_Drmis_Hours m,
       m_Drmis_Leave_Code = (if m_Drmis_Leave_Code m = '''' then ''0'' else m_Drmis_Leave_Code m),
       m_Oracle_Hours = m_Oracle_Hours m,
       m_Oracle_Leave_Code = m_Oracle_Leave_Code m \<rparr>"

definition canonicalCode :: "merged_row \<Rightarrow> merged_row" where
  "canonicalCode row =
     (if trim (m_Drmis_Leave_Code row) = '''' then row\<lparr> m_Drmis_Leave_Code := ''0'' \<rparr>
      else case parseInt (m_Drmis_Leave_Code row) of
             Some num \<Rightarrow> row\<lparr> m_Drmis_Leave_Code := showInt num \<rparr>
           | None \<Rightarrow> row)"

definition mergedRows :: "engine \<Rightarrow> drmis_rec list \<Rightarrow> oracle_rec list \<Rightarrow> merged_row list" where
  "mergedRows E drmisData oracleData =
     (let defaultPers = defaultPersOf E drmisData;
          m = placeAll defaultPers (foldl (seedDrmis E) [] drmisData) oracleData
      in map (canonicalCode \<circ> mergedOf E defaultPers \<circ> snd) m)"

text \<open>The filter by the allow-list \<^verbatim>\<open>leaveCodeWhitelist\<close>, when one is loaded and not empty.\<close>

definition filteredMerged :: "string list option \<Rightarrow> merged_row list \<Rightarrow> merged_row list" where
  "filteredMerged leaveCodeWhitelist merged =
     (case leaveCodeWhitelist of
        None \<Rightarrow> merged
      | Some wl \<Rightarrow>
          if wl = [] then merged
          else filter (\<lambda>r. trim (m_Drmis_Leave_Code r) \<in> set wl \<or> trim (m_Oracle_Leave_Code r) \<in> set wl) merged)"

definition isMismatch :: "merged_row \<Rightarrow> bool" where
  "isMismatch r =
     (m_Drmis_Leave_Code r \<noteq> m_Oracle_Leave_Code r \<or> m_Drmis_Hours r \<noteq> m_Oracle_Hours r)"

definition asMismatch :: "merged_row \<Rightarrow> mismatch" where
  "asMismatch r =
     \<lparr> m_Date = m_Date r, m_Pers_No = m_Pers_No r, m_Drmis_Hours = m_Drmis_Hours r,
       m_Drmis_Leave_Code = m_Drmis_Leave_Code r, m_Oracle_Hours = m_Oracle_Hours r,
       m_Oracle_Leave_Code = m_Oracle_Leave_Code r, Add_to_CATs_Edits = True \<rparr>"

text \<open>\<^verbatim>\<open>Array.prototype.sort\<close> is stable, as the insertion sort \<open>sort_key\<close> is.\<close>

definition reconcileData :: "engine \<Rightarrow> string list option \<Rightarrow> drmis_rec list \<Rightarrow> oracle_rec list \<Rightarrow> mismatch list" where
  "reconcileData E leaveCodeWhitelist drmisData oracleData =
     sort_key m_Date
       (map asMismatch
          (filter isMismatch (filteredMerged leaveCodeWhitelist (mergedRows E drmisData oracleData))))"

section \<open>Edit generation\<close>

text \<open>
  The value of \<^verbatim>\<open>aa_code\<close> is a number when \<^verbatim>\<open>parseInt\<close> reads one from the code, and the
  code itself (or the empty string) otherwise; \<open>codeText\<close> is the text the table shows for it.
\<close>

datatype aa_code = CodeNum int | CodeStr string

definition renderCode :: "string \<Rightarrow> aa_code" where
  "renderCode code = (case parseInt code of None \<Rightarrow> CodeStr code | Some num \<Rightarrow> CodeNum num)"

fun codeText :: "aa_code \<Rightarrow> string" where
  "codeText (CodeNum n) = showInt n"
| "codeText (CodeStr s) = s"

text \<open>\<^verbatim>\<open>row['Pers No'] ? Number(row['Pers No']) : ''\<close>; \<open>PersNumber None\<close> is \<^verbatim>\<open>NaN\<close>.\<close>

datatype pers_no = PersBlank | PersNumber "rat option"

text \<open>
  The data row of a mismatch. Its fields \<^verbatim>\<open>work_order\<close> and \<^verbatim>\<open>act\<close> are empty strings,
  \<^verbatim>\<open>row_type\<close> is \<^verbatim>\<open>'data-row'\<close> and \<^verbatim>\<open>editable\<close> is false. The field \<^verbatim>\<open>date\<close> holds the date,
  which the code formats for display (\<^verbatim>\<open>formattedDateForDisplay\<close>).
\<close>

record data_row =
  pers_no :: pers_no
  date :: date
  work_order :: string
  act :: string
  aa_code :: aa_code
  hours :: rat
  discrepancy_reason :: string
  original_drmis_code :: string
  original_drmis_hours :: rat
  replaced :: bool

text \<open>
  An entry of the result: a data row, or the total row that follows it, which holds the
  label \<^verbatim>\<open>'Total Hours'\<close> and \<^verbatim>\<open>Number(row['Oracle Hours']) || ''\<close> (\<open>None\<close> is the empty string).
\<close>

datatype cats_entry = DataRow data_row | TotalRow "rat option"

text \<open>\<^verbatim>\<open>reasons.join(', ')\<close>.\<close>

fun joinWith :: "string \<Rightarrow> string list \<Rightarrow> string" where
  "joinWith sep [] = ''''"
| "joinWith sep [x] = x"
| "joinWith sep (x # y # ys) = x @ sep @ joinWith sep (y # ys)"

definition dataRowOf :: "engine \<Rightarrow> 'a merged_row_scheme \<Rightarrow> data_row" where
  "dataRowOf E row =
     (let reasons =
            (if m_Oracle_Leave_Code row \<noteq> m_Drmis_Leave_Code row then [''Code Mismatch''] else []) @
            (if m_Oracle_Hours row \<noteq> m_Drmis_Hours row then [''Hours Mismatch''] else []);
          discrepancy = joinWith '', '' reasons;
          oracleCode = m_Oracle_Leave_Code row;
          oracleHoursNum = m_Oracle_Hours row;
          drmisCode = m_Drmis_Leave_Code row;
          (aa_code_value, hoursValue) =
            (if (trim oracleCode = '''' \<or> oracleCode = ''0'') \<and> m_Oracle_Hours row = 0
             then (if drmisCode \<noteq> '''' \<and> drmisCode \<noteq> ''0'' then renderCode drmisCode else CodeStr '''', 0)
             else (if oracleCode \<noteq> '''' \<and> oracleCode \<noteq> ''0'' then renderCode oracleCode
                   else if drmisCode \<noteq> '''' \<and> drmisCode \<noteq> ''0'' then renderCode drmisCode
                   else CodeStr '''',
                   oracleHoursNum));
          originalDrmisCode = trim drmisCode;
          originalDrmisHours = m_Drmis_Hours row;
          isReplaced = (oracleCode \<noteq> '''' \<and> oracleCode \<noteq> ''0'' \<and> originalDrmisCode \<noteq> '''' \<and>
                        originalDrmisCode \<noteq> ''0'' \<and> oracleCode \<noteq> originalDrmisCode)
      in \<lparr> pers_no = (if truthy (m_Pers_No row) then PersNumber (js_Number E (m_Pers_No row)) else PersBlank),
           date = m_Date row, work_order = '''', act = '''',
           aa_code = aa_code_value, hours = hoursValue, discrepancy_reason = discrepancy,
           original_drmis_code = originalDrmisCode, original_drmis_hours = originalDrmisHours,
           replaced = isReplaced \<rparr>)"

definition generateCatsEdits :: "engine \<Rightarrow> 'a merged_row_scheme list \<Rightarrow> cats_entry list" where
  "generateCatsEdits E mismatches =
     concat (map (\<lambda>row. [DataRow (dataRowOf E row),
                          TotalRow (if m_Oracle_Hours row = 0 then None else Some (m_Oracle_Hours row))])
                 mismatches)"

section \<open>Prefill and reallocation\<close>













section \<open>Record extraction\<close>

text \<open>
  \<^verbatim>\<open>toLowerCase\<close> on the 8-bit code units: the letters A to Z and the capital letters of
  Latin-1 have a small form. \<^verbatim>\<open>s.includes(sub)\<close> holds when \<open>sub\<close> starts at some position
  of \<open>s\<close>.
\<close>

definition upperChars :: string where
  "upperChars = ''ABCDEFGHIJKLMNOPQRSTUVWXYZ'' @
     [CHR 0xC0, CHR 0xC1, CHR 0xC2, CHR 0xC3, CHR 0xC4, CHR 0xC5, CHR 0xC6, CHR 0xC7, CHR 0xC8, CHR 0xC9,
      CHR 0xCA, CHR 0xCB, CHR 0xCC, CHR 0xCD, CHR 0xCE, CHR 0xCF, CHR 0xD0, CHR 0xD1, CHR 0xD2, CHR 0xD3,
      CHR 0xD4, CHR 0xD5, CHR 0xD6, CHR 0xD8, CHR 0xD9, CHR 0xDA, CHR 0xDB, CHR 0xDC, CHR 0xDD, CHR 0xDE]"

definition lowerChars :: string where
  "lowerChars = ''abcdefghijklmnopqrstuvwxyz'' @
     [CHR 0xE0, CHR 0xE1, CHR 0xE2, CHR 0xE3, CHR 0xE4, CHR 0xE5, CHR 0xE6, CHR 0xE7, CHR 0xE8, CHR 0xE9,
      CHR 0xEA, CHR 0xEB, CHR 0xEC, CHR 0xED, CHR 0xEE, CHR 0xEF, CHR 0xF0, CHR 0xF1, CHR 0xF2, CHR 0xF3,
      CHR 0xF4, CHR 0xF5, CHR 0xF6, CHR 0xF8, CHR 0xF9, CHR 0xFA, CHR 0xFB, CHR 0xFC, CHR 0xFD, CHR 0xFE]"

definition toLowerChar :: "char \<Rightarrow> char" where
  "toLowerChar c = (case map_of (zip upperChars lowerChars) c of Some l \<Rightarrow> l | None \<Rightarrow> c)"

definition toLowerCase :: "string \<Rightarrow> string" where
  "toLowerCase s = map toLowerChar s"

fun js_includes :: "string \<Rightarrow> string \<Rightarrow> bool" where
  "js_includes [] sub = (sub = [])"
| "js_includes (c # cs) sub = (take (length sub) (c # cs) = sub \<or> js_includes cs sub)"










subsection \<open>extractDrmisData\<close>












subsection \<open>extractOracleData\<close>







section \<open>Header detection\<close>

text \<open>
  The first part of \<^verbatim>\<open>sheetRowsToObjects\<close>: the choice of the header row of a grid. A grid
  is the list of its rows, a row the list of its cells; a row that is absent reads as the empty
  row (\<^verbatim>\<open>rows[i] || []\<close>), a cell that is \<^verbatim>\<open>null\<close> or \<^verbatim>\<open>undefined\<close> is \<open>Null\<close>.
\<close>

definition headerKeywords :: "string list" where
  "headerKeywords = [''pers'', ''pers.no'', ''pers no'', ''pers_no'', ''date'', ''hours'', ''a/atype'',
     ''aatype'', ''a a type'', ''a a'', ''leave'', ''leave code'', ''a/a type'', ''a/atype'']"

text \<open>The elements of \<^verbatim>\<open>norm\<close>, the array \<^verbatim>\<open>nonEmpty\<close>, the flag \<^verbatim>\<open>hasKeyword\<close> and \<^verbatim>\<open>score\<close>.\<close>

definition normCell :: "engine \<Rightarrow> cell \<Rightarrow> string" where
  "normCell E c = (if c = Null then '''' else toLowerCase (trim (js_String E c)))"

definition nonEmpty :: "engine \<Rightarrow> cell list \<Rightarrow> string list" where
  "nonEmpty E r = filter (\<lambda>x. x \<noteq> '''') (map (normCell E) r)"

definition hasKeyword :: "engine \<Rightarrow> cell list \<Rightarrow> bool" where
  "hasKeyword E r = list_ex (\<lambda>x. list_ex (\<lambda>k. js_includes x k) headerKeywords) (map (normCell E) r)"

definition score :: "engine \<Rightarrow> cell list \<Rightarrow> int" where
  "score E r = int (length (nonEmpty E r)) + (if hasKeyword E r then 50 else 0)"

text \<open>
  The body of the loop on the pair \<^verbatim>\<open>(bestIdx, bestScore)\<close>, the loop over
  \<^verbatim>\<open>i = 0, ..., maxScan - 1\<close> from \<^verbatim>\<open>(0, -1)\<close>, and the value of \<^verbatim>\<open>bestIdx\<close> after it.
\<close>

definition maxScan :: "cell list list \<Rightarrow> nat" where
  "maxScan rows = min 30 (length rows)"

definition scanStep :: "engine \<Rightarrow> cell list list \<Rightarrow> nat \<times> int \<Rightarrow> nat \<Rightarrow> nat \<times> int" where
  "scanStep E rows best i =
     (if score E (rows ! i) > snd best then (i, score E (rows ! i)) else best)"

definition scanRows :: "engine \<Rightarrow> cell list list \<Rightarrow> nat \<Rightarrow> nat \<times> int" where
  "scanRows E rows m = foldl (scanStep E rows) (0, - 1) [0..<m]"

definition bestIdx :: "engine \<Rightarrow> cell list list \<Rightarrow> nat" where
  "bestIdx E rows = fst (scanRows E rows (maxScan rows))"

text \<open>
  The number of cells of a row that hold a header keyword, as the specification counts the
  keywords of a row.
\<close>

definition spec_keywordCount :: "engine \<Rightarrow> cell list \<Rightarrow> nat" where
  "spec_keywordCount E r =
     length (filter (\<lambda>x. list_ex (\<lambda>k. js_includes x k) headerKeywords) (map (normCell E) r))"

text \<open>A data row that is not blank in any of its \<open>n\<close> columns.\<close>

definition spec_fullRow :: "engine \<Rightarrow> nat \<Rightarrow> cell list \<Rightarrow> bool" where
  "spec_fullRow E n r = (length r = n \<and> list_all (\<lambda>c. c \<noteq> Null \<and> trim (js_String E c) \<noteq> '''') r)"

section \<open>Results: leave codes\<close>





section \<open>Results: business days and multi-day expansion\<close>


















section \<open>Results: reconciliation\<close>

subsection \<open>Placement of Oracle records\<close>

text \<open>
  The placement of a record, by recursion over the entries of the map: the first entry of the
  record's date takes its hours and code; without such an entry a new one is appended.
\<close>

lemma placeOracle_Nil:
  "placeOracle dp [] r =
     [((Date r, dp), \<lparr> m_Date = Date r, m_Pers_No = Txt dp, m_Drmis_Hours = 0,
        m_Drmis_Leave_Code = ''0'', m_Oracle_Hours = Oracle_Hours r,
        m_Oracle_Leave_Code = Oracle_Leave_Code r \<rparr>)]"
  by (simp add: placeOracle_def)

lemma placeOracle_Cons:
  "placeOracle dp ((k0, v0) # m) r =
     (if fst k0 = Date r
      then (k0, v0\<lparr> m_Oracle_Hours := Oracle_Hours r, m_Oracle_Leave_Code := Oracle_Leave_Code r \<rparr>) # m
      else (k0, v0) # placeOracle dp m r)"
proof (cases "fst k0 = Date r")
  case True
  then show ?thesis by (simp add: placeOracle_def)
next
  case False
  show ?thesis
  proof (cases "find (\<lambda>(k, v). fst k = Date r) m")
    case None
    with False show ?thesis by (auto simp: placeOracle_def)
  next
    case (Some fe)
    obtain fk e where fe: "fe = (fk, e)" by (cases fe)
    from Some fe have "fst fk = Date r"
      by (auto simp: find_Some_iff)
    with False have "k0 \<noteq> fk" by auto
    with False Some fe show ?thesis by (simp add: placeOracle_def)
  qed
qed

lemma placeOracle_found:
  "\<exists>k v. find (\<lambda>(k, v). fst k = Date r) (placeOracle dp m r) = Some (k, v) \<and>
         m_Oracle_Hours v = Oracle_Hours r \<and> m_Oracle_Leave_Code v = Oracle_Leave_Code r"
proof (induction m)
  case Nil
  show ?case by (simp add: placeOracle_Nil)
next
  case (Cons e m)
  obtain k0 v0 where e: "e = (k0, v0)" by (cases e)
  show ?case
  proof (cases "fst k0 = Date r")
    case True
    with e show ?thesis by (simp add: placeOracle_Cons)
  next
    case False
    with e Cons.IH show ?thesis by (simp add: placeOracle_Cons)
  qed
qed

lemma placeOracle_other:
  "d \<noteq> Date r \<Longrightarrow>
   find (\<lambda>(k, v). fst k = d) (placeOracle dp m r) = find (\<lambda>(k, v). fst k = d) m"
proof (induction m)
  case Nil
  then show ?case by (simp add: placeOracle_Nil)
next
  case (Cons e m)
  obtain k0 v0 where e: "e = (k0, v0)" by (cases e)
  show ?case
  proof (cases "fst k0 = Date r")
    case True
    with e Cons.prems show ?thesis by (simp add: placeOracle_Cons)
  next
    case False
    with e Cons show ?thesis by (simp add: placeOracle_Cons)
  qed
qed

lemma placeOracle_drmisSide:
  "\<exists>ext. map drmisSide (placeOracle dp m r) = map drmisSide m @ ext"
proof (induction m)
  case Nil
  show ?case by simp
next
  case (Cons e m)
  obtain k0 v0 where e: "e = (k0, v0)" by (cases e)
  show ?case
  proof (cases "fst k0 = Date r")
    case True
    with e show ?thesis by (simp add: placeOracle_Cons drmisSide_def)
  next
    case False
    with e Cons.IH show ?thesis by (simp add: placeOracle_Cons)
  qed
qed

lemma placeAll_snoc: "placeAll dp m (rs @ [r]) = placeOracle dp (placeAll dp m rs) r"
  by (simp add: placeAll_def)

lemma placeAll_drmisSide:
  "\<exists>ext. map drmisSide (placeAll dp m rs) = map drmisSide m @ ext"
proof (induction rs rule: rev_induct)
  case Nil
  show ?case by (simp add: placeAll_def)
next
  case (snoc r rs)
  then obtain ext where ext: "map drmisSide (placeAll dp m rs) = map drmisSide m @ ext"
    by blast
  from placeOracle_drmisSide [of dp "placeAll dp m rs" r] obtain ext' where
    "map drmisSide (placeOracle dp (placeAll dp m rs) r) = map drmisSide (placeAll dp m rs) @ ext'"
    by blast
  with ext have "map drmisSide (placeAll dp m (rs @ [r])) = map drmisSide m @ (ext @ ext')"
    by (simp add: placeAll_snoc)
  then show ?case by blast
qed

lemma placeAll_last:
  "filter (\<lambda>r. Date r = d) rs \<noteq> [] \<Longrightarrow>
   \<exists>k v. find (\<lambda>(k, v). fst k = d) (placeAll dp m rs) = Some (k, v) \<and>
         m_Oracle_Hours v = Oracle_Hours (last (filter (\<lambda>r. Date r = d) rs)) \<and>
         m_Oracle_Leave_Code v = Oracle_Leave_Code (last (filter (\<lambda>r. Date r = d) rs))"
proof (induction rs rule: rev_induct)
  case Nil
  then show ?case by simp
next
  case (snoc r rs)
  show ?case
  proof (cases "Date r = d")
    case True
    then have "last (filter (\<lambda>r. Date r = d) (rs @ [r])) = r" by simp
    with placeOracle_found [of r dp "placeAll dp m rs"] True show ?thesis
      by (simp add: placeAll_snoc)
  next
    case False
    then have same: "filter (\<lambda>r. Date r = d) (rs @ [r]) = filter (\<lambda>r. Date r = d) rs" by simp
    with snoc.prems have "filter (\<lambda>r. Date r = d) rs \<noteq> []" by simp
    from snoc.IH [OF this] obtain k v where kv:
      "find (\<lambda>(k, v). fst k = d) (placeAll dp m rs) = Some (k, v)"
      "m_Oracle_Hours v = Oracle_Hours (last (filter (\<lambda>r. Date r = d) rs))"
      "m_Oracle_Leave_Code v = Oracle_Leave_Code (last (filter (\<lambda>r. Date r = d) rs))"
      by blast
    from False have "d \<noteq> Date r" by simp
    from placeOracle_other [OF this, of dp "placeAll dp m rs"] kv(1)
    have "find (\<lambda>(k, v). fst k = d) (placeAll dp m (rs @ [r])) = Some (k, v)"
      by (simp add: placeAll_snoc)
    with kv(2,3) same show ?thesis by simp
  qed
qed

lemma merged_keeps_oracle:
  "m_Oracle_Hours (canonicalCode (mergedOf E dp v)) = m_Oracle_Hours v \<and>
   m_Oracle_Leave_Code (canonicalCode (mergedOf E dp v)) = m_Oracle_Leave_Code v"
  by (simp add: canonicalCode_def mergedOf_def split: option.splits)

text \<open>
  C10. After the placement of the Oracle records, the first row of the map for a date that
  some Oracle record carries holds the hours and the leave code of the last record of that
  date, and the merged row made from it holds them as well; no hours are added up. The rows
  that the map held before the placement keep their key, date, employee id, DRMIS hours and
  DRMIS leave code, in their order (new rows come after them).
\<close>

theorem C10_oracle_placement:
  "(filter (\<lambda>r. Date r = d) oracleData \<noteq> [] \<longrightarrow>
      (\<exists>k v. find (\<lambda>(k, v). fst k = d) (placeAll defaultPers m oracleData) = Some (k, v) \<and>
         m_Oracle_Hours v = Oracle_Hours (last (filter (\<lambda>r. Date r = d) oracleData)) \<and>
         m_Oracle_Leave_Code v = Oracle_Leave_Code (last (filter (\<lambda>r. Date r = d) oracleData)) \<and>
         m_Oracle_Hours (canonicalCode (mergedOf E defaultPers v)) =
           Oracle_Hours (last (filter (\<lambda>r. Date r = d) oracleData)) \<and>
         m_Oracle_Leave_Code (canonicalCode (mergedOf E defaultPers v)) =
           Oracle_Leave_Code (last (filter (\<lambda>r. Date r = d) oracleData)))) \<and>
   take (length m) (map drmisSide (placeAll defaultPers m oracleData)) = map drmisSide m"
proof -
  have "take (length m) (map drmisSide (placeAll defaultPers m oracleData)) = map drmisSide m"
    using placeAll_drmisSide [of defaultPers m oracleData] by auto
  moreover have "filter (\<lambda>r. Date r = d) oracleData \<noteq> [] \<longrightarrow>
      (\<exists>k v. find (\<lambda>(k, v). fst k = d) (placeAll defaultPers m oracleData) = Some (k, v) \<and>
         m_Oracle_Hours v = Oracle_Hours (last (filter (\<lambda>r. Date r = d) oracleData)) \<and>
         m_Oracle_Leave_Code v = Oracle_Leave_Code (last (filter (\<lambda>r. Date r = d) oracleData)) \<and>
         m_Oracle_Hours (canonicalCode (mergedOf E defaultPers v)) =
           Oracle_Hours (last (filter (\<lambda>r. Date r = d) oracleData)) \<and>
         m_Oracle_Leave_Code (canonicalCode (mergedOf E defaultPers v)) =
           Oracle_Leave_Code (last (filter (\<lambda>r. Date r = d) oracleData)))"
  proof
    assume "filter (\<lambda>r. Date r = d) oracleData \<noteq> []"
    from placeAll_last [OF this, of defaultPers m] obtain k v where kv:
      "find (\<lambda>(k, v). fst k = d) (placeAll defaultPers m oracleData) = Some (k, v)"
      "m_Oracle_Hours v = Oracle_Hours (last (filter (\<lambda>r. Date r = d) oracleData))"
      "m_Oracle_Leave_Code v = Oracle_Leave_Code (last (filter (\<lambda>r. Date r = d) oracleData))"
      by blast
    with merged_keeps_oracle [of E defaultPers v]
    show "\<exists>k v. find (\<lambda>(k, v). fst k = d) (placeAll defaultPers m oracleData) = Some (k, v) \<and>
         m_Oracle_Hours v = Oracle_Hours (last (filter (\<lambda>r. Date r = d) oracleData)) \<and>
         m_Oracle_Leave_Code v = Oracle_Leave_Code (last (filter (\<lambda>r. Date r = d) oracleData)) \<and>
         m_Oracle_Hours (canonicalCode (mergedOf E defaultPers v)) =
           Oracle_Hours (last (filter (\<lambda>r. Date r = d) oracleData)) \<and>
         m_Oracle_Leave_Code (canonicalCode (mergedOf E defaultPers v)) =
           Oracle_Leave_Code (last (filter (\<lambda>r. Date r = d) oracleData))"
      by (intro exI [of _ k] exI [of _ v]) simp
  qed
  ultimately show ?thesis by (rule conjI [rotated])
qed

text \<open>
  The theorem at a map seeded with one DRMIS record and two Oracle records of its date: the
  row ends with the 3 hours of the second record, not with 8 or 11.
\<close>

theorem C10_oracle_placement_witness:
  "filter (\<lambda>r. Date r = 20206)
     [\<lparr> Date = 20206, Oracle_Hours = 8, Oracle_Leave_Code = ''1110'' \<rparr>,
      \<lparr> Date = 20206, Oracle_Hours = 3, Oracle_Leave_Code = ''1120'' \<rparr>] \<noteq> [] \<and>
   placeAll ''12345''
     [((20206, ''12345''), \<lparr> m_Date = 20206, m_Pers_No = Txt ''12345'', m_Drmis_Hours = 4,
        m_Drmis_Leave_Code = ''1110'', m_Oracle_Hours = 0, m_Oracle_Leave_Code = '''' \<rparr>)]
     [\<lparr> Date = 20206, Oracle_Hours = 8, Oracle_Leave_Code = ''1110'' \<rparr>,
      \<lparr> Date = 20206, Oracle_Hours = 3, Oracle_Leave_Code = ''1120'' \<rparr>] =
     [((20206, ''12345''), \<lparr> m_Date = 20206, m_Pers_No = Txt ''12345'', m_Drmis_Hours = 4,
        m_Drmis_Leave_Code = ''1110'', m_Oracle_Hours = 3, m_Oracle_Leave_Code = ''1120'' \<rparr>)] \<and>
   (\<exists>k v. find (\<lambda>(k, v). fst k = 20206)
       (placeAll ''12345''
          [((20206, ''12345''), \<lparr> m_Date = 20206, m_Pers_No = Txt ''12345'', m_Drmis_Hours = 4,
             m_Drmis_Leave_Code = ''1110'', m_Oracle_Hours = 0, m_Oracle_Leave_Code = '''' \<rparr>)]
          [\<lparr> Date = 20206, Oracle_Hours = 8, Oracle_Leave_Code = ''1110'' \<rparr>,
           \<lparr> Date = 20206, Oracle_Hours = 3, Oracle_Leave_Code = ''1120'' \<rparr>]) = Some (k, v) \<and>
      m_Oracle_Hours v = 3 \<and> m_Oracle_Leave_Code v = ''1120'')"
proof -
  define Os where "Os = [\<lparr> Date = 20206, Oracle_Hours = 8, Oracle_Leave_Code = ''1110'' \<rparr>,
      \<lparr> Date = 20206, Oracle_Hours = 3, Oracle_Leave_Code = ''1120'' \<rparr>]"
  define M where "M = [((20206::int, ''12345''), \<lparr> m_Date = 20206, m_Pers_No = Txt ''12345'',
      m_Drmis_Hours = 4, m_Drmis_Leave_Code = ''1110'', m_Oracle_Hours = 0, m_Oracle_Leave_Code = '''' \<rparr>)]"
  have ne: "filter (\<lambda>r. Date r = 20206) Os \<noteq> []"
    by (simp add: Os_def)
  have lst: "last (filter (\<lambda>r. Date r = 20206) Os) =
      \<lparr> Date = 20206, Oracle_Hours = 3, Oracle_Leave_Code = ''1120'' \<rparr>"
    by (simp add: Os_def)
  have run: "placeAll ''12345'' M Os =
     [((20206, ''12345''), \<lparr> m_Date = 20206, m_Pers_No = Txt ''12345'', m_Drmis_Hours = 4,
        m_Drmis_Leave_Code = ''1110'', m_Oracle_Hours = 3, m_Oracle_Leave_Code = ''1120'' \<rparr>)]"
    by (simp add: placeAll_def placeOracle_def M_def Os_def)
  from C10_oracle_placement [of 20206 Os "''12345''" M sampleEngine, THEN conjunct1, rule_format, OF ne]
  obtain k v where "find (\<lambda>(k, v). fst k = 20206) (placeAll ''12345'' M Os) = Some (k, v)"
    "m_Oracle_Hours v = Oracle_Hours (last (filter (\<lambda>r. Date r = 20206) Os))"
    "m_Oracle_Leave_Code v = Oracle_Leave_Code (last (filter (\<lambda>r. Date r = 20206) Os))"
    by blast
  then have "\<exists>k v. find (\<lambda>(k, v). fst k = 20206) (placeAll ''12345'' M Os) = Some (k, v) \<and>
      m_Oracle_Hours v = 3 \<and> m_Oracle_Leave_Code v = ''1120''"
    by (simp add: lst)
  with ne run show ?thesis
    unfolding Os_def M_def by (intro conjI)
qed

subsection \<open>Mismatches\<close>





section \<open>Results: edit generation\<close>

lemma digit_chars:
  "list_all (\<lambda>c. \<not> isWhite c \<and> c \<noteq> CHR ''-'' \<and> c \<noteq> CHR ''+'' \<and> c \<noteq> CHR ''x'' \<and> c \<noteq> CHR ''X'' \<and>
       radixDigit 10 c = Some (nat (digitVal c)) \<and> 0 \<le> digitVal c) ''0123456789''"
  by (simp add: isWhite_def radixDigit_def digitVal_def Let_def)

lemma isDigit_facts:
  assumes "isDigit c"
  shows "\<not> isWhite c" "c \<noteq> CHR ''-''" "c \<noteq> CHR ''+''" "c \<noteq> CHR ''x''" "c \<noteq> CHR ''X''"
    "radixDigit 10 c = Some (nat (digitVal c))" "0 \<le> digitVal c"
proof -
  from assms have "c \<in> set ''0123456789''"
    unfolding isDigit_def .
  with digit_chars have "\<not> isWhite c \<and> c \<noteq> CHR ''-'' \<and> c \<noteq> CHR ''+'' \<and> c \<noteq> CHR ''x'' \<and> c \<noteq> CHR ''X'' \<and>
       radixDigit 10 c = Some (nat (digitVal c)) \<and> 0 \<le> digitVal c"
    unfolding list_all_iff by blast
  then show "\<not> isWhite c" "c \<noteq> CHR ''-''" "c \<noteq> CHR ''+''" "c \<noteq> CHR ''x''" "c \<noteq> CHR ''X''"
    "radixDigit 10 c = Some (nat (digitVal c))" "0 \<le> digitVal c"
    by blast+
qed

lemma radixValue_digits:
  "list_all isDigit z \<Longrightarrow>
   foldl (\<lambda>acc c. int 10 * acc + (case radixDigit 10 c of None \<Rightarrow> 0 | Some d \<Rightarrow> int d)) a z =
   foldl (\<lambda>acc c. 10 * acc + digitVal c) a z"
  by (induction z arbitrary: a) (auto simp: isDigit_facts)

text \<open>\<^verbatim>\<open>parseInt\<close> reads a string of decimal digits as the number it denotes.\<close>

lemma parseInt_digits:
  assumes "c \<noteq> ''''" "list_all isDigit c"
  shows "parseInt c = Some (digitsToInt c)"
proof -
  from assms obtain x xs where c: "c = x # xs" and x: "isDigit x" and xs: "list_all isDigit xs"
    by (cases c) auto
  have dw: "dropWhile isWhite c = c"
    using c x by (simp add: isDigit_facts)
  have sign: "take 1 c \<noteq> ''-''" "take 1 c \<noteq> ''+''"
    using c x by (auto simp: isDigit_facts)
  have hex: "take 2 c \<noteq> ''0x''" "take 2 c \<noteq> ''0X''"
    using c xs by (cases xs; auto simp: isDigit_facts)+
  have tw: "takeWhile (\<lambda>ch. radixDigit 10 ch \<noteq> None) c = c"
    using assms(2) by (auto simp: takeWhile_eq_all_conv list_all_iff isDigit_facts)
  have rv: "radixValue 10 c = digitsToInt c"
    using radixValue_digits [OF assms(2), of 0] by (simp add: radixValue_def digitsToInt_def)
  show ?thesis
    unfolding parseInt_def Let_def dw
    by (simp only: sign hex tw assms(1) rv simp_thms if_False mult_1)
qed

lemma renderCode_digits:
  "c \<noteq> '''' \<Longrightarrow> list_all isDigit c \<Longrightarrow> renderCode c = CodeNum (digitsToInt c)"
  by (simp add: renderCode_def parseInt_digits)

text \<open>
  The resolution of a data row, for every mismatch: the branch on the empty Oracle side, the
  order of preference of the codes, the hours and the reason are as the specification says;
  the code that is chosen goes through \<open>renderCode\<close>.
\<close>

lemma dataRowOf_resolution:
  fixes row :: "'a merged_row_scheme"
  shows
    "((trim (m_Oracle_Leave_Code row) = '''' \<or> m_Oracle_Leave_Code row = ''0'') \<and> m_Oracle_Hours row = 0 \<longrightarrow>
        aa_code (dataRowOf E row) =
          (if m_Drmis_Leave_Code row \<noteq> '''' \<and> m_Drmis_Leave_Code row \<noteq> ''0''
           then renderCode (m_Drmis_Leave_Code row) else CodeStr '''') \<and>
        hours (dataRowOf E row) = 0) \<and>
     (\<not> ((trim (m_Oracle_Leave_Code row) = '''' \<or> m_Oracle_Leave_Code row = ''0'') \<and> m_Oracle_Hours row = 0) \<longrightarrow>
        aa_code (dataRowOf E row) =
          (if m_Oracle_Leave_Code row \<noteq> '''' \<and> m_Oracle_Leave_Code row \<noteq> ''0''
           then renderCode (m_Oracle_Leave_Code row)
           else if m_Drmis_Leave_Code row \<noteq> '''' \<and> m_Drmis_Leave_Code row \<noteq> ''0''
           then renderCode (m_Drmis_Leave_Code row) else CodeStr '''') \<and>
        hours (dataRowOf E row) = m_Oracle_Hours row) \<and>
     discrepancy_reason (dataRowOf E row) =
       joinWith '', ''
         ((if m_Oracle_Leave_Code row \<noteq> m_Drmis_Leave_Code row then [''Code Mismatch''] else []) @
          (if m_Oracle_Hours row \<noteq> m_Drmis_Hours row then [''Hours Mismatch''] else []))"
  by (simp add: dataRowOf_def Let_def)

text \<open>
  The end-to-end scenario of the specification: a DRMIS record of 4.25 hours under code 1110
  without an Oracle record gives the target code 1110, 0 hours and both reasons.
\<close>

lemma generateCatsEdits_drmis_only:
  "generateCatsEdits E
     [\<lparr> m_Date = dt, m_Pers_No = p, m_Drmis_Hours = 17 / 4, m_Drmis_Leave_Code = ''1110'',
        m_Oracle_Hours = 0, m_Oracle_Leave_Code = '''' \<rparr>] =
     [DataRow \<lparr> pers_no = (if truthy p then PersNumber (js_Number E p) else PersBlank), date = dt,
        work_order = '''', act = '''', aa_code = CodeNum 1110, hours = 0,
        discrepancy_reason = ''Code Mismatch, Hours Mismatch'', original_drmis_code = ''1110'',
        original_drmis_hours = 17 / 4, replaced = False \<rparr>,
      TotalRow None]"
proof -
  have r: "renderCode ''1110'' = CodeNum 1110"
    by (simp add: renderCode_def parseInt_def isWhite_def radixDigit_def radixValue_def Let_def)
  have t: "trim '''' = ''''" "trim ''1110'' = ''1110''"
    by (simp_all add: trim_def isWhite_def)
  show ?thesis
    by (simp add: generateCatsEdits_def dataRowOf_def Let_def r t)
qed

text \<open>
  C4 at an input where the code departs from it. An Oracle leave code cell \<open>''N/A''\<close> is
  normalised to \<open>''1N/A''\<close>; the record, of 8 hours on a date without DRMIS record, is reported
  as a mismatch; the target code should be the Oracle code, the text \<open>''1N/A''\<close>. The generator
  passes the code to \<^verbatim>\<open>parseInt\<close>, which reads the leading 1 and ignores the rest: the target
  code is the number 1.
\<close>

theorem C4_target_code_failing_input:
  "oracleKey (normalizeLeaveCodeRawOracle sampleEngine (Txt ''N/A'')) = ''1N/A'' \<and>
   reconcileData sampleEngine None []
     [\<lparr> Date = 20206, Oracle_Hours = 8, Oracle_Leave_Code = ''1N/A'' \<rparr>] =
     [\<lparr> m_Date = 20206, m_Pers_No = Txt '''', m_Drmis_Hours = 0, m_Drmis_Leave_Code = ''0'',
        m_Oracle_Hours = 8, m_Oracle_Leave_Code = ''1N/A'', Add_to_CATs_Edits = True \<rparr>] \<and>
   generateCatsEdits sampleEngine
     [\<lparr> m_Date = 20206, m_Pers_No = Txt '''', m_Drmis_Hours = 0, m_Drmis_Leave_Code = ''0'',
        m_Oracle_Hours = 8, m_Oracle_Leave_Code = ''1N/A'', Add_to_CATs_Edits = True \<rparr>] =
     [DataRow \<lparr> pers_no = PersBlank, date = 20206, work_order = '''', act = '''',
        aa_code = CodeNum 1, hours = 8, discrepancy_reason = ''Code Mismatch, Hours Mismatch'',
        original_drmis_code = ''0'', original_drmis_hours = 0, replaced = False \<rparr>,
      TotalRow (Some 8)] \<and>
   codeText (CodeNum 1) = ''1'' \<and> codeText (CodeNum 1) \<noteq> ''1N/A''"
proof -
  have t: "trim ''N/A'' = ''N/A''" "trim ''1N/A'' = ''1N/A''" "trim ''0'' = ''0''" "trim '''' = ''''"
    by (simp_all add: trim_def isWhite_def)
  have k: "oracleKey (normalizeLeaveCodeRawOracle sampleEngine (Txt ''N/A'')) = ''1N/A''"
    by (simp add: oracleKey_def normalizeLeaveCodeRawOracle_def t stripNonDigits_def isDigit_def)
  have p: "parseInt ''0'' = Some 0" "parseInt ''1N/A'' = Some 1"
    by (simp_all add: parseInt_def isWhite_def radixDigit_def radixValue_def Let_def)
  have s: "showInt 0 = ''0''" "showInt 1 = ''1''"
    by (simp_all add: showInt_def showNat.simps digitChar_def)
  have rec: "reconcileData sampleEngine None []
     [\<lparr> Date = 20206, Oracle_Hours = 8, Oracle_Leave_Code = ''1N/A'' \<rparr>] =
     [\<lparr> m_Date = 20206, m_Pers_No = Txt '''', m_Drmis_Hours = 0, m_Drmis_Leave_Code = ''0'',
        m_Oracle_Hours = 8, m_Oracle_Leave_Code = ''1N/A'', Add_to_CATs_Edits = True \<rparr>]"
    by (simp add: reconcileData_def filteredMerged_def mergedRows_def defaultPersOf_def placeAll_def
        placeOracle_def mergedOf_def canonicalCode_def isMismatch_def asMismatch_def t p s Let_def)
  have gen: "generateCatsEdits sampleEngine
     [\<lparr> m_Date = 20206, m_Pers_No = Txt '''', m_Drmis_Hours = 0, m_Drmis_Leave_Code = ''0'',
        m_Oracle_Hours = 8, m_Oracle_Leave_Code = ''1N/A'', Add_to_CATs_Edits = True \<rparr>] =
     [DataRow \<lparr> pers_no = PersBlank, date = 20206, work_order = '''', act = '''',
        aa_code = CodeNum 1, hours = 8, discrepancy_reason = ''Code Mismatch, Hours Mismatch'',
        original_drmis_code = ''0'', original_drmis_hours = 0, replaced = False \<rparr>,
      TotalRow (Some 8)]"
    by (simp add: generateCatsEdits_def dataRowOf_def Let_def renderCode_def t p)
  have shown: "codeText (CodeNum 1) = ''1''" "codeText (CodeNum 1) \<noteq> ''1N/A''"
    by (simp_all add: s)
  show ?thesis
    by (rule conjI [OF k conjI [OF rec conjI [OF gen conjI [OF shown(1) shown(2)]]]])
qed

section \<open>Results: proportional reallocation\<close>










section \<open>Results: date normalisation\<close>

lemma civil_days:
  "makeDate 1899 11 30 = - 25569" "makeDate 1899 11 31 = - 25568"
  "makeDate 2025 3 27 = 20205" "makeDate 2025 3 28 = 20206"
  "excelEpoch = - 25569 * msPerDay"
  by (simp_all add: excelEpoch_def makeDate_def makeDay_def dayFromYear_def inLeapYear_def monthStart_def)

text \<open>
  Where local time is UTC, a whole serial number \<open>n\<close> is the day \<open>n\<close> days after 1899-12-30,
  and a serial number with a time of day is floored to its day.
\<close>

lemma normalizeDate_serial_utc:
  assumes "tzOffset E = 0"
  shows "normalizeDate E (Num (of_int n)) = Some (makeDate 1899 11 30 + n)"
    and "normalizeDate E (Num (of_int n + 1 / 2)) = Some (makeDate 1899 11 30 + n)"
proof -
  have "timeClip (of_int (- 25569 * msPerDay) + of_int n * of_int msPerDay) = (n - 25569) * msPerDay"
  proof -
    have "(of_int (- 25569 * msPerDay) + of_int n * of_int msPerDay :: rat) = of_int ((n - 25569) * msPerDay)"
      by (simp add: algebra_simps)
    then show ?thesis
      by (simp only: timeClip_def of_int_less_0_iff floor_of_int ceiling_of_int if_cancel)
  qed
  then show "normalizeDate E (Num (of_int n)) = Some (makeDate 1899 11 30 + n)"
    using assms by (simp add: normalizeDate_def civil_days localDay_def msPerDay_def)
  have "(of_int (- 25569 * msPerDay) + (of_int n + 1 / 2) * of_int msPerDay :: rat) =
      of_int ((n - 25569) * msPerDay + 43200000)"
    by (simp add: algebra_simps msPerDay_def)
  then have "timeClip (of_int (- 25569 * msPerDay) + (of_int n + 1 / 2) * of_int msPerDay) =
      (n - 25569) * msPerDay + 43200000"
    by (simp only: timeClip_def of_int_less_0_iff floor_of_int ceiling_of_int if_cancel)
  then show "normalizeDate E (Num (of_int n + 1 / 2)) = Some (makeDate 1899 11 30 + n)"
    using assms by (simp add: normalizeDate_def civil_days localDay_def msPerDay_def)
qed

text \<open>
  The patterns on the examples of the specification: day first with dots and with dashes,
  month first with slashes, year first with dashes. All four name 2025-04-28.
\<close>

lemma normalizeDate_strings:
  "normalizeDate E (Txt ''28.04.2025'') = Some (makeDate 2025 3 28)"
  "normalizeDate E (Txt ''28-04-2025'') = Some (makeDate 2025 3 28)"
  "normalizeDate E (Txt ''4/28/2025'') = Some (makeDate 2025 3 28)"
  "normalizeDate E (Txt ''2025-04-28'') = Some (makeDate 2025 3 28)"
  "normalizeDate E (Txt '' 2025-4-28 '') = Some (makeDate 2025 3 28)"
  "normalizeDate E (Txt '''') = None" "normalizeDate E Null = None"
  by (simp_all add: normalizeDate_def trim_def isWhite_def match3_def digitGroup_def isDigit_def
      digitsToInt_def digitVal_def)

text \<open>
  A native date is cut to its local calendar day; a string that no pattern matches goes to
  \<^verbatim>\<open>Date.parse\<close>.
\<close>

lemma normalizeDate_native:
  "normalizeDate E (Dat t) = Some (localDay E t)"
  "tzOffset E = 0 \<Longrightarrow> normalizeDate E (Dat (20206 * msPerDay + 55800000)) = Some (makeDate 2025 3 28)"
  by (simp_all add: normalizeDate_def localDay_def msPerDay_def civil_days)

lemma normalizeDate_fallback:
  "normalizeDate E (Txt ''April 28, 2025'') =
     (case dateParse E ''April 28, 2025'' of Some parsed \<Rightarrow> Some (localDay E parsed) | None \<Rightarrow> None)"
  by (simp add: normalizeDate_def trim_def isWhite_def match3_def digitGroup_def isDigit_def)

text \<open>
  C6 at an input where the code departs from it. The serial number is added to the epoch
  1899-12-30 taken at midnight UTC, and the day is then read in local time
  (\<^verbatim>\<open>getFullYear\<close>, \<^verbatim>\<open>getMonth\<close>, \<^verbatim>\<open>getDate\<close>). Where local time is behind UTC, here by five hours,
  the instant is still on the evening before: serial 1 gives 1899-12-30 and not 1899-12-31,
  and serial 45775 gives 2025-04-27 and not 2025-04-28. Where local time is UTC the days are
  as the specification says.
\<close>

theorem C6_serial_failing_input:
  "normalizeDate (sampleEngine\<lparr> tzOffset := - 300 \<rparr>) (Num 1) = Some (makeDate 1899 11 30) \<and>
   makeDate 1899 11 30 \<noteq> makeDate 1899 11 31 \<and>
   normalizeDate (sampleEngine\<lparr> tzOffset := - 300 \<rparr>) (Num 45775) = Some (makeDate 2025 3 27) \<and>
   makeDate 2025 3 27 \<noteq> makeDate 2025 3 28 \<and>
   normalizeDate sampleEngine (Num 1) = Some (makeDate 1899 11 31) \<and>
   normalizeDate sampleEngine (Num 45775) = Some (makeDate 2025 3 28)"
  by (simp add: normalizeDate_def civil_days localDay_def timeClip_def msPerDay_def sampleEngine_def)

section \<open>Results: missing columns\<close>












end
